theory Spec2Isabelle
  imports Main "HOL-Library.Sublist" "HOL-Library.Word"
begin

section \<open>Python values\<close>

text \<open>
  A Python \<open>str\<close> is a sequence of Unicode code points, and \<open>len\<close> counts code
  points; \<open>bytes\<close> is a sequence of octets, which is what a HOL \<open>char\<close> is. The
  two are kept apart: \<open>pystr\<close> for text, \<open>bytes\<close> for what travels on a socket.
  \<open>ustr\<close> writes an ASCII literal of the source as a \<open>pystr\<close>.
\<close>

type_synonym codepoint = nat
type_synonym pystr = "codepoint list"
type_synonym bytes = "char list"

definition ustr :: "string \<Rightarrow> pystr" where
  "ustr s = map of_char s"

text \<open>
  The values \<open>json.loads\<close> returns and \<open>json.dumps\<close> accepts: \<open>None\<close>, \<open>bool\<close>,
  \<open>int\<close> (unbounded), \<open>float\<close> (an IEEE double, kept as its 64 bits: the program
  only passes floats on), \<open>str\<close>, \<open>list\<close> and \<open>dict\<close> with \<open>str\<close> keys. A
  \<open>dict\<close> is an association list in insertion order; a lookup takes the first
  binding of a key (a Python dict holds each key once).
\<close>

datatype json =
    JNull
  | JBool bool
  | JInt int
  | JFloat "64 word"
  | JString pystr
  | JArray "json list"
  | JObject "(pystr \<times> json) list"

text \<open>
  The exceptions the handlers can meet; every one is a subclass of \<open>Exception\<close>.
  \<open>ClientError\<close> carries \<open>e.response\<close>, the parsed error response of the service.
  \<open>JSONDecodeError\<close> and \<open>UnicodeDecodeError\<close> are both subclasses of
  \<open>ValueError\<close>, and neither is a subclass of the other: an
  \<open>except json.JSONDecodeError\<close> clause catches the first only.
\<close>

datatype exn =
    JSONDecodeError
  | UnicodeDecodeError
  | ValueError
  | AttributeError
  | KeyError
  | IndexError
  | TypeError
  | ClientError json
  | BotoCoreError
  | OtherException pystr

subsection \<open>The operations of \<open>str\<close>, \<open>dict\<close> and \<open>list\<close> that the handler uses\<close>

text \<open>
  \<open>str.isspace\<close> for one code point, as CPython's \<open>_PyUnicode_IsWhitespace\<close>
  lists them; \<open>str.strip()\<close> without arguments removes these at both ends.
\<close>

definition py_isspace :: "codepoint \<Rightarrow> bool" where
  "py_isspace c \<longleftrightarrow>
     (0x09 \<le> c \<and> c \<le> 0x0D) \<or> (0x1C \<le> c \<and> c \<le> 0x20) \<or> c = 0x85 \<or> c = 0xA0
     \<or> c = 0x1680 \<or> (0x2000 \<le> c \<and> c \<le> 0x200A) \<or> c = 0x2028 \<or> c = 0x2029
     \<or> c = 0x202F \<or> c = 0x205F \<or> c = 0x3000"

definition py_strip :: "pystr \<Rightarrow> pystr" where
  "py_strip s = rev (dropWhile py_isspace (rev (dropWhile py_isspace s)))"

text \<open>\<open>str(n)\<close> for a non-negative integer, as the f-string of the length message needs it.\<close>

fun py_str_nat :: "nat \<Rightarrow> pystr" where
  "py_str_nat n =
     (if n < 10 then [48 + n] else py_str_nat (n div 10) @ [48 + n mod 10])"

declare py_str_nat.simps [simp del]

text \<open>
  \<open>x.get(key, default)\<close>: only a \<open>dict\<close> has the method, any other JSON value
  raises \<open>AttributeError\<close>.
\<close>

fun py_get :: "json \<Rightarrow> pystr \<Rightarrow> json \<Rightarrow> exn + json" where
  "py_get (JObject kvs) k d = Inr (case map_of kvs k of Some v \<Rightarrow> v | None \<Rightarrow> d)"
| "py_get _ k d = Inl AttributeError"

text \<open>\<open>x.strip()\<close>: only a \<open>str\<close> has the method.\<close>

fun py_strip_method :: "json \<Rightarrow> exn + pystr" where
  "py_strip_method (JString s) = Inr (py_strip s)"
| "py_strip_method _ = Inl AttributeError"

text \<open>
  \<open>x[key]\<close> with a \<open>str\<close> key: a dict looks the key up (\<open>KeyError\<close> when absent);
  a list or a string wants an integer index, and the other values are not
  subscriptable (\<open>TypeError\<close> both times).
\<close>

fun py_getitem_str :: "json \<Rightarrow> pystr \<Rightarrow> exn + json" where
  "py_getitem_str (JObject kvs) k = (case map_of kvs k of Some v \<Rightarrow> Inr v | None \<Rightarrow> Inl KeyError)"
| "py_getitem_str _ k = Inl TypeError"

text \<open>
  \<open>x[0]\<close>: the first element of a list, the first character of a string (as a
  string of length one), \<open>IndexError\<close> when either is empty; a dict from JSON has
  string keys only, so \<open>0\<close> is never one of them (\<open>KeyError\<close>).
\<close>

fun py_getitem_0 :: "json \<Rightarrow> exn + json" where
  "py_getitem_0 (JArray []) = Inl IndexError"
| "py_getitem_0 (JArray (v # vs)) = Inr v"
| "py_getitem_0 (JString []) = Inl IndexError"
| "py_getitem_0 (JString (c # cs)) = Inr (JString [c])"
| "py_getitem_0 (JObject kvs) = Inl KeyError"
| "py_getitem_0 _ = Inl TypeError"

text \<open>
  \<open>needle in x\<close> for a \<open>str\<close> needle: substring test on a string, membership in a
  list, key membership in a dict, \<open>TypeError\<close> on a value that is not iterable.
\<close>

fun py_in :: "pystr \<Rightarrow> json \<Rightarrow> exn + bool" where
  "py_in needle (JString s) = Inr (sublist needle s)"
| "py_in needle (JArray vs) = Inr (JString needle \<in> set vs)"
| "py_in needle (JObject kvs) = Inr (needle \<in> fst ` set kvs)"
| "py_in needle _ = Inl TypeError"



text \<open>Sequencing of steps that may raise: the first exception ends the sequence.\<close>

definition and_then :: "exn + 'a \<Rightarrow> ('a \<Rightarrow> exn + 'b) \<Rightarrow> exn + 'b" where
  "and_then r f = (case r of Inl e \<Rightarrow> Inl e | Inr x \<Rightarrow> f x)"

section \<open>Configuration\<close>

definition REGION :: pystr where
  "REGION = ustr ''eu-west-2''"

definition MODEL_ID :: pystr where
  "MODEL_ID = ustr ''amazon.nova-pro-v1:0''"

definition MAX_TICKET_LENGTH :: nat where
  "MAX_TICKET_LENGTH = 5000"

section \<open>The collaborators\<close>

text \<open>
  One call of \<open>bedrock_client.invoke_model\<close>: the keyword arguments of the source.
  The \<open>body\<close> argument is \<open>json.dumps\<close> of a dict built in the handler; it is kept
  as that dict (serialising it cannot fail: it holds strings, an \<open>int\<close> and a
  \<open>float\<close>).
\<close>

record invoke_request =
  modelId :: pystr
  contentType :: pystr
  accept :: pystr
  payload :: json

text \<open>
  What the code takes from its libraries and from the process, as parameters:
  \<^item> \<open>int_of_str\<close>: \<open>int(s)\<close> on a header value (\<open>ValueError\<close> when it is no integer
    literal);
  \<^item> \<open>decode_utf8\<close>: \<open>b.decode("utf-8")\<close> (\<open>UnicodeDecodeError\<close>);
  \<^item> \<open>json_loads\<close>: \<open>json.loads\<close> on a \<open>str\<close> (\<open>JSONDecodeError\<close>);
  \<^item> \<open>utcnow_isoformat\<close>: \<open>datetime.utcnow().isoformat()\<close>;
  \<^item> \<open>bedrock_client\<close>: the module-level client, \<open>None\<close> when its construction
    failed at start-up; a client answers one \<open>invoke_model\<close> call with the bytes
    that \<open>response["body"].read()\<close> yields, or raises.
  The theorems hold for every choice of these.
\<close>

record env =
  int_of_str :: "pystr \<Rightarrow> exn + int"
  decode_utf8 :: "bytes \<Rightarrow> exn + pystr"
  json_loads :: "pystr \<Rightarrow> exn + json"
  utcnow_isoformat :: pystr
  bedrock_client :: "(invoke_request \<Rightarrow> exn + bytes) option"

text \<open>
  What the handler sees of a request: the path, and the values of the two headers
  it reads (\<open>None\<close> when the header is absent). The body is on the input stream.
\<close>

record request =
  path :: pystr
  content_type_header :: "pystr option"
  content_length_header :: "pystr option"

text \<open>One response written to the client: status line, headers, and the dict sent as JSON.\<close>

record response =
  status_code :: int
  resp_headers :: "(pystr \<times> pystr) list"
  resp_data :: json

text \<open>
  The state a handler works on: the unread bytes of the request stream, the
  responses written so far, and the calls made to the inference client.
\<close>

record state =
  rfile :: bytes
  wfile :: "response list"
  invocations :: "invoke_request list"

text \<open>
  \<open>self.rfile.read(n)\<close> on the buffered stream: \<open>n\<close> bytes (fewer at the end of
  the stream), everything for \<open>-1\<close>, \<open>ValueError\<close> below \<open>-1\<close>. The stream is what
  the client sends before closing its side; waiting for it is not modelled.
\<close>

definition rfile_read :: "state \<Rightarrow> int \<Rightarrow> (exn + bytes) \<times> state" where
  "rfile_read st n =
     (if n < - 1 then (Inl ValueError, st)
      else if n = - 1 then (Inr (rfile st), st\<lparr>rfile := []\<rparr>)
      else (Inr (take (nat n) (rfile st)), st\<lparr>rfile := drop (nat n) (rfile st)\<rparr>))"

section \<open>The request handler\<close>

definition send_cors_headers :: "(pystr \<times> pystr) list" where
  "send_cors_headers =
     [(ustr ''Access-Control-Allow-Origin'', ustr ''*''),
      (ustr ''Access-Control-Allow-Methods'', ustr ''GET, POST, OPTIONS''),
      (ustr ''Access-Control-Allow-Headers'', ustr ''Content-Type'')]"

text \<open>
  \<open>send_json_response\<close> writes one response. Its own \<open>try\<close> swallows every
  exception, so it never raises; \<open>json.dumps\<close> is total on the values of type
  \<open>json\<close>, so the body is always written.
\<close>

definition json_response :: "int \<Rightarrow> json \<Rightarrow> response" where
  "json_response code data =
     \<lparr>status_code = code,
      resp_headers = (ustr ''Content-Type'', ustr ''application/json'') # send_cors_headers,
      resp_data = data\<rparr>"

definition send_json_response :: "state \<Rightarrow> int \<Rightarrow> json \<Rightarrow> state" where
  "send_json_response st code data = st\<lparr>wfile := wfile st @ [json_response code data]\<rparr>"

definition error_body :: "pystr \<Rightarrow> json" where
  "error_body msg = JObject [(ustr ''error'', JString msg)]"

subsection \<open>\<open>do_GET\<close>\<close>

definition do_GET :: "env \<Rightarrow> request \<Rightarrow> state \<Rightarrow> state" where
  "do_GET env rq st =
     (if path rq = ustr ''/health'' then
        send_json_response st 200
          (JObject [(ustr ''status'', JString (ustr ''healthy'')),
                    (ustr ''timestamp'', JString (utcnow_isoformat env)),
                    (ustr ''service'', JString (ustr ''bedrock-support-assistant'')),
                    (ustr ''region'', JString REGION),
                    (ustr ''model'', JString MODEL_ID)])
      else send_json_response st 404 (error_body (ustr ''Not found'')))"

subsection \<open>\<open>do_POST\<close>: validation\<close>

text \<open>
  How a part of \<open>do_POST\<close> ends: it has sent a response and returned, it has
  raised, or it goes on with what it computed.
\<close>

datatype 'a flow = Responded | Raised exn | Continue 'a

text \<open>\<open>int(self.headers.get("Content-Length", 0))\<close>: the default is the integer \<open>0\<close>.\<close>

definition content_length_of :: "env \<Rightarrow> request \<Rightarrow> exn + int" where
  "content_length_of env rq =
     (case content_length_header rq of None \<Rightarrow> Inr 0 | Some v \<Rightarrow> int_of_str env v)"

text \<open>\<open>self.headers.get("Content-Type", "")\<close>\<close>

definition content_type_of :: "request \<Rightarrow> pystr" where
  "content_type_of rq = (case content_type_header rq of None \<Rightarrow> [] | Some v \<Rightarrow> v)"

text \<open>
  Lines 114 to 144 of \<open>app.py\<close>: content type, content length, reading and parsing
  the body. It goes on with \<open>data\<close>, the parsed body.
\<close>

definition do_POST_read_json :: "env \<Rightarrow> request \<Rightarrow> state \<Rightarrow> json flow \<times> state" where
  "do_POST_read_json env rq st =
     (if \<not> sublist (ustr ''application/json'') (content_type_of rq) then
        (Responded, send_json_response st 400 (error_body (ustr ''Content-Type must be application/json'')))
      else
       (case content_length_of env rq of
          Inl e \<Rightarrow> (Raised e, st)
        | Inr content_length \<Rightarrow>
           (if content_length = 0 then
              (Responded, send_json_response st 400 (error_body (ustr ''No content provided'')))
            else if content_length > 10485760 then
              (Responded, send_json_response st 413 (error_body (ustr ''Payload too large'')))
            else
             (case rfile_read st content_length of
                (Inl e, st1) \<Rightarrow> (Raised e, st1)
              | (Inr body, st1) \<Rightarrow>
                 (case and_then (decode_utf8 env body) (json_loads env) of
                    Inl e \<Rightarrow>
                     (if e = JSONDecodeError then
                        (Responded, send_json_response st1 400 (error_body (ustr ''Invalid JSON'')))
                      else (Raised e, st1))
                  | Inr data \<Rightarrow> (Continue data, st1))))))"

text \<open>
  Lines 146 to 158: \<open>ticket = data.get("ticket", "").strip()\<close> and the two checks
  of it. It goes on with the trimmed ticket.
\<close>

definition do_POST_check_ticket :: "json \<Rightarrow> state \<Rightarrow> pystr flow \<times> state" where
  "do_POST_check_ticket data st =
     (case and_then (py_get data (ustr ''ticket'') (JString [])) py_strip_method of
        Inl e \<Rightarrow> (Raised e, st)
      | Inr ticket \<Rightarrow>
         (if ticket = [] then
            (Responded, send_json_response st 400
               (error_body (ustr ''Missing or empty 'ticket' field'')))
          else if length ticket > MAX_TICKET_LENGTH then
            (Responded, send_json_response st 400
               (error_body (ustr ''Ticket exceeds maximum length of ''
                  @ py_str_nat MAX_TICKET_LENGTH @ ustr '' characters'')))
          else (Continue ticket, st)))"

text \<open>The whole validation, lines 114 to 158: it goes on with the parsed body and the ticket.\<close>

definition do_POST_validate :: "env \<Rightarrow> request \<Rightarrow> state \<Rightarrow> (json \<times> pystr) flow \<times> state" where
  "do_POST_validate env rq st =
     (case do_POST_read_json env rq st of
        (Responded, st1) \<Rightarrow> (Responded, st1)
      | (Raised e, st1) \<Rightarrow> (Raised e, st1)
      | (Continue data, st1) \<Rightarrow>
         (case do_POST_check_ticket data st1 of
            (Responded, st2) \<Rightarrow> (Responded, st2)
          | (Raised e, st2) \<Rightarrow> (Raised e, st2)
          | (Continue ticket, st2) \<Rightarrow> (Continue (data, ticket), st2)))"

subsection \<open>\<open>do_POST\<close>: the call to the inference service\<close>

definition system_prompt :: pystr where
  "system_prompt = ustr
     (''You are a support ticket analyzer. Analyze the following support ticket and provide:\<newline>''
      @ ''1. A brief summary (1-2 sentences)\<newline>''
      @ ''2. Severity level (critical, high, medium, low)\<newline>''
      @ ''3. Category (technical, billing, account, other)\<newline>''
      @ ''4. Suggested response to send to the customer\<newline>''
      @ ''\<newline>''
      @ ''Format your response as JSON with fields: summary, severity, category, suggested_response'')"

definition build_prompt :: "pystr \<Rightarrow> pystr" where
  "build_prompt ticket = system_prompt @ ustr ''\<newline>\<newline>Support Ticket:\<newline>'' @ ticket"

text \<open>
  The arguments of \<open>invoke_model\<close> (Amazon Nova format). The temperature \<open>0.7\<close> is
  the double \<open>0x3FE6666666666666\<close>.
\<close>

definition build_invoke_request :: "pystr \<Rightarrow> invoke_request" where
  "build_invoke_request prompt =
     \<lparr>modelId = MODEL_ID,
      contentType = ustr ''application/json'',
      accept = ustr ''application/json'',
      payload = JObject
        [(ustr ''messages'',
            JArray [JObject
              [(ustr ''role'', JString (ustr ''user'')),
               (ustr ''content'', JArray [JObject [(ustr ''text'', JString prompt)]])]]),
         (ustr ''inferenceConfig'',
            JObject [(ustr ''max_new_tokens'', JInt 1024),
                     (ustr ''temperature'', JFloat 0x3FE6666666666666)])]\<rparr>"

text \<open>\<open>response_body["output"]["message"]["content"][0]["text"]\<close>\<close>

definition assistant_message_of :: "json \<Rightarrow> exn + json" where
  "assistant_message_of response_body =
     and_then (py_getitem_str response_body (ustr ''output'')) (\<lambda>output.
     and_then (py_getitem_str output (ustr ''message'')) (\<lambda>message.
     and_then (py_getitem_str message (ustr ''content'')) (\<lambda>content.
     and_then (py_getitem_0 content) (\<lambda>first.
     py_getitem_str first (ustr ''text'')))))"

text \<open>
  Lines 205 to 209: \<open>json.loads(assistant_message)\<close>, with the raw text wrapped
  when the parser raises \<open>JSONDecodeError\<close>. \<open>json.loads\<close> raises \<open>TypeError\<close> on
  a value that is not a string.
\<close>

definition analysis_of :: "env \<Rightarrow> json \<Rightarrow> exn + json" where
  "analysis_of env assistant_message =
     (case assistant_message of
        JString s \<Rightarrow>
          (case json_loads env s of
             Inr v \<Rightarrow> Inr v
           | Inl e \<Rightarrow>
               if e = JSONDecodeError then Inr (JObject [(ustr ''analysis'', assistant_message)])
               else Inl e)
      | _ \<Rightarrow> Inl TypeError)"

text \<open>
  The body of the inner \<open>try\<close> (lines 169 to 215). The result is the exception it
  raises, if any, and the state it leaves.
\<close>

definition do_POST_invoke ::
  "env \<Rightarrow> (invoke_request \<Rightarrow> exn + bytes) \<Rightarrow> json \<Rightarrow> pystr \<Rightarrow> state \<Rightarrow> exn option \<times> state" where
  "do_POST_invoke env client data ticket st =
     (let prompt = build_prompt ticket;
          call = build_invoke_request prompt;
          st1 = st\<lparr>invocations := invocations st @ [call]\<rparr>
      in case
           and_then (client call) (\<lambda>raw.
           and_then (decode_utf8 env raw) (\<lambda>text.
           and_then (json_loads env text) (\<lambda>response_body.
           and_then (assistant_message_of response_body) (\<lambda>assistant_message.
           and_then (analysis_of env assistant_message) (\<lambda>analysis.
           and_then (py_get data (ustr ''ticket_id'') (JString (ustr ''N/A''))) (\<lambda>ticket_id.
           Inr (JObject [(ustr ''ticket_id'', ticket_id), (ustr ''analysis'', analysis)])))))))
         of
           Inl e \<Rightarrow> (Some e, st1)
         | Inr result \<Rightarrow> (None, send_json_response st1 200 result))"

text \<open>\<open>e.response.get("Error", {}).get("Code", "")\<close>\<close>

definition error_code_of :: "json \<Rightarrow> exn + json" where
  "error_code_of e_response =
     and_then (py_get e_response (ustr ''Error'') (JObject []))
       (\<lambda>err. py_get err (ustr ''Code'') (JString []))"

text \<open>The \<open>except ClientError\<close> clause (lines 217 to 231); what it raises goes to the outer \<open>try\<close>.\<close>

definition do_POST_on_ClientError :: "json \<Rightarrow> state \<Rightarrow> exn option \<times> state" where
  "do_POST_on_ClientError e_response st =
     (case error_code_of e_response of
        Inl e \<Rightarrow> (Some e, st)
      | Inr error_code \<Rightarrow>
         (case py_in (ustr ''ThrottlingException'') error_code of
            Inl e \<Rightarrow> (Some e, st)
          | Inr throttled \<Rightarrow>
             (if throttled then
                (None, send_json_response st 429
                   (error_body (ustr ''Service temporarily unavailable (throttled)'')))
              else
               (case py_in (ustr ''AccessDeniedException'') error_code of
                  Inl e \<Rightarrow> (Some e, st)
                | Inr denied \<Rightarrow>
                   (if denied then
                      (None, send_json_response st 403
                         (error_body (ustr ''Access denied - check AWS credentials and permissions'')))
                    else
                      (None, send_json_response st 502
                         (error_body (ustr ''Bedrock service error''))))))))"

text \<open>The inner \<open>try\<close> with its two \<open>except\<close> clauses (lines 168 to 236).\<close>

definition do_POST_call_bedrock ::
  "env \<Rightarrow> (invoke_request \<Rightarrow> exn + bytes) \<Rightarrow> json \<Rightarrow> pystr \<Rightarrow> state \<Rightarrow> exn option \<times> state" where
  "do_POST_call_bedrock env client data ticket st =
     (case do_POST_invoke env client data ticket st of
        (None, st1) \<Rightarrow> (None, st1)
      | (Some e, st1) \<Rightarrow>
         (case e of
            ClientError e_response \<Rightarrow> do_POST_on_ClientError e_response st1
          | BotoCoreError \<Rightarrow>
              (None, send_json_response st1 502 (error_body (ustr ''AWS service error'')))
          | _ \<Rightarrow> (Some e, st1)))"

text \<open>Lines 160 to 236: the check of the client, then the call.\<close>

definition do_POST_analyze :: "env \<Rightarrow> json \<Rightarrow> pystr \<Rightarrow> state \<Rightarrow> exn option \<times> state" where
  "do_POST_analyze env data ticket st =
     (case bedrock_client env of
        None \<Rightarrow> (None, send_json_response st 503 (error_body (ustr ''Bedrock service unavailable'')))
      | Some client \<Rightarrow> do_POST_call_bedrock env client data ticket st)"

text \<open>The body of the outer \<open>try\<close> of \<open>do_POST\<close>.\<close>

definition do_POST_try :: "env \<Rightarrow> request \<Rightarrow> state \<Rightarrow> exn option \<times> state" where
  "do_POST_try env rq st =
     (case do_POST_validate env rq st of
        (Responded, st1) \<Rightarrow> (None, st1)
      | (Raised e, st1) \<Rightarrow> (Some e, st1)
      | (Continue (data, ticket), st1) \<Rightarrow> do_POST_analyze env data ticket st1)"

text \<open>\<open>do_POST\<close>: the outer \<open>except Exception\<close> answers 500 to whatever was raised.\<close>

definition do_POST :: "env \<Rightarrow> request \<Rightarrow> state \<Rightarrow> state" where
  "do_POST env rq st =
     (case do_POST_try env rq st of
        (None, st1) \<Rightarrow> st1
      | (Some e, st1) \<Rightarrow> send_json_response st1 500 (error_body (ustr ''Internal server error'')))"

section \<open>Concrete collaborators and requests\<close>

text \<open>
  Test doubles for the collaborators, to run the handler on concrete requests:
  a decoder for ASCII bytes (where UTF-8 is the identity on code points), and
  tables that give \<open>int\<close> and \<open>json.loads\<close> on the few texts the sample
  requests use, each with the value Python computes for it.
\<close>

definition ascii_decode :: "bytes \<Rightarrow> exn + pystr" where
  "ascii_decode b =
     (if list_all (\<lambda>c. (of_char c :: nat) < 128) b then Inr (map of_char b)
      else Inl UnicodeDecodeError)"

definition int_table :: "pystr \<Rightarrow> exn + int" where
  "int_table s =
     (case map_of
        [(ustr ''2'', 2), (ustr ''9'', 9), (ustr ''13'', 13), (ustr ''16'', 16), (ustr ''36'', 36),
         (ustr ''-1'', - 1), (ustr ''20000000'', 20000000)] s of
        Some n \<Rightarrow> Inr n
      | None \<Rightarrow> Inl ValueError)"

definition sample_data :: json where
  "sample_data = JObject [(ustr ''ticket'', JString (ustr ''hi'')), (ustr ''ticket_id'', JString (ustr ''T-1''))]"

definition reply_of :: "pystr \<Rightarrow> json" where
  "reply_of text =
     JObject [(ustr ''output'', JObject [(ustr ''message'',
       JObject [(ustr ''content'', JArray [JObject [(ustr ''text'', JString text)]])])])]"

definition json_table :: "pystr \<Rightarrow> exn + json" where
  \<open>json_table s =
     (case map_of
        [(ustr ''{"ticket": "hi", "ticket_id": "T-1"}'', sample_data),
         (ustr ''{"ticket": "hi"}'', JObject [(ustr ''ticket'', JString (ustr ''hi''))]),
         (ustr ''{"ticket": "  "}'', JObject [(ustr ''ticket'', JString (ustr ''  ''))]),
         (ustr ''{"ticket": 5}'', JObject [(ustr ''ticket'', JInt 5)]),
         (ustr ''[]'', JArray []),
         (ustr ''{}'', JObject []),
         (ustr ''{"output": {"message": {"content": [{"text": "{}"}]}}}'', reply_of (ustr ''{}'')),
         (ustr ''{"output": {"message": {"content": [{"text": "Reset the password"}]}}}'',
            reply_of (ustr ''Reset the password''))] s of
        Some v \<Rightarrow> Inr v
      | None \<Rightarrow> Inl JSONDecodeError)\<close>

definition sample_env :: "(invoke_request \<Rightarrow> exn + bytes) option \<Rightarrow> env" where
  "sample_env client =
     \<lparr>int_of_str = int_table, decode_utf8 = ascii_decode, json_loads = json_table,
      utcnow_isoformat = ustr ''2024-05-01T12:00:00.000000'', bedrock_client = client\<rparr>"

definition client_json :: "invoke_request \<Rightarrow> exn + bytes" where
  \<open>client_json call = Inr ''{"output": {"message": {"content": [{"text": "{}"}]}}}''\<close>

definition client_text :: "invoke_request \<Rightarrow> exn + bytes" where
  \<open>client_text call = Inr ''{"output": {"message": {"content": [{"text": "Reset the password"}]}}}''\<close>

definition client_error :: "string \<Rightarrow> invoke_request \<Rightarrow> exn + bytes" where
  "client_error code call =
     Inl (ClientError (JObject [(ustr ''Error'',
       JObject [(ustr ''Code'', JString (ustr code)), (ustr ''Message'', JString (ustr ''failed''))])]))"

definition client_botocore :: "invoke_request \<Rightarrow> exn + bytes" where
  "client_botocore call = Inl BotoCoreError"

definition post :: "string \<Rightarrow> string \<Rightarrow> request" where
  "post ctype clen =
     \<lparr>path = ustr ''/'', content_type_header = Some (ustr ctype), content_length_header = Some (ustr clen)\<rparr>"

definition get :: "string \<Rightarrow> request" where
  "get p = \<lparr>path = ustr p, content_type_header = None, content_length_header = None\<rparr>"

definition incoming :: "bytes \<Rightarrow> state" where
  "incoming b = \<lparr>rfile = b, wfile = [], invocations = []\<rparr>"

text \<open>
  A request whose ticket is 5001 times the letter \<open>a\<close>: the body
  \<open>{"ticket": "aa...a"}\<close> of 5015 bytes, its text, and its parse. The
  environment \<open>long_env\<close> knows this one body besides those of the tables.
\<close>

definition long_ticket :: pystr where
  "long_ticket = replicate 5001 97"

definition long_body :: bytes where
  \<open>long_body = ''{"ticket": "'' @ replicate 5001 CHR ''a'' @ ''"}''\<close>

definition long_text :: pystr where
  "long_text = map of_char long_body"

definition long_data :: json where
  "long_data = JObject [(ustr ''ticket'', JString long_ticket)]"

definition long_env :: "(invoke_request \<Rightarrow> exn + bytes) option \<Rightarrow> env" where
  "long_env client =
     \<lparr>int_of_str = (\<lambda>s. if s = ustr ''5015'' then Inr 5015 else int_table s),
      decode_utf8 = (\<lambda>b. if b = long_body then Inr long_text else ascii_decode b),
      json_loads = (\<lambda>s. if s = long_text then Inr long_data else json_table s),
      utcnow_isoformat = ustr ''2024-05-01T12:00:00.000000'', bedrock_client = client\<rparr>"









section \<open>Properties\<close>

subsection \<open>What each part of the handler does to the state\<close>

lemma wfile_send [simp]: "wfile (send_json_response st code data) = wfile st @ [json_response code data]"
  by (simp add: send_json_response_def)

lemma status_code_json_response [simp]: "status_code (json_response code data) = code"
  by (simp add: json_response_def)

lemma resp_data_json_response [simp]: "resp_data (json_response code data) = data"
  by (simp add: json_response_def)

lemma invocations_send [simp]: "invocations (send_json_response st code data) = invocations st"
  by (simp add: send_json_response_def)

lemma rfile_send [simp]: "rfile (send_json_response st code data) = rfile st"
  by (simp add: send_json_response_def)

lemma rfile_read_keeps:
  assumes "rfile_read st n = (x, st1)"
  shows "wfile st1 = wfile st" and "invocations st1 = invocations st"
  using assms by (auto simp: rfile_read_def split: if_splits)

lemma read_json_Continue_iff:
  "do_POST_read_json env rq st = (Continue data, st1) \<longleftrightarrow>
     sublist (ustr ''application/json'') (content_type_of rq) \<and>
     (\<exists>n body. content_length_of env rq = Inr n \<and> n \<noteq> 0 \<and> n \<le> 10485760 \<and>
        rfile_read st n = (Inr body, st1) \<and>
        and_then (decode_utf8 env body) (json_loads env) = Inr data)"
  by (auto simp: do_POST_read_json_def split: sum.splits prod.splits if_splits)

lemma read_json_invocations:
  "do_POST_read_json env rq st = (f, st1) \<Longrightarrow> invocations st1 = invocations st"
  by (auto simp: do_POST_read_json_def split: sum.splits prod.splits if_splits dest: rfile_read_keeps)

lemma read_json_quiet:
  "do_POST_read_json env rq st = (f, st1) \<Longrightarrow> f \<noteq> Responded \<Longrightarrow> wfile st1 = wfile st"
  by (auto simp: do_POST_read_json_def split: sum.splits prod.splits if_splits dest: rfile_read_keeps)

lemma read_json_Responded:
  "do_POST_read_json env rq st = (Responded, st1) \<Longrightarrow>
     \<exists>r. wfile st1 = wfile st @ [r] \<and> (status_code r = 400 \<or> status_code r = 413)"
  by (auto simp: do_POST_read_json_def split: sum.splits prod.splits if_splits dest: rfile_read_keeps)

lemma check_ticket_Continue_iff:
  "do_POST_check_ticket data st = (Continue ticket, st1) \<longleftrightarrow>
     st1 = st \<and> and_then (py_get data (ustr ''ticket'') (JString [])) py_strip_method = Inr ticket \<and>
     ticket \<noteq> [] \<and> length ticket \<le> MAX_TICKET_LENGTH"
  by (auto simp: do_POST_check_ticket_def split: sum.splits if_splits)

lemma check_ticket_invocations:
  "do_POST_check_ticket data st = (f, st1) \<Longrightarrow> invocations st1 = invocations st"
  by (auto simp: do_POST_check_ticket_def split: sum.splits if_splits)

lemma check_ticket_quiet:
  "do_POST_check_ticket data st = (f, st1) \<Longrightarrow> f \<noteq> Responded \<Longrightarrow> st1 = st"
  by (auto simp: do_POST_check_ticket_def split: sum.splits if_splits)

lemma check_ticket_Responded:
  "do_POST_check_ticket data st = (Responded, st1) \<Longrightarrow>
     \<exists>r. wfile st1 = wfile st @ [r] \<and> status_code r = 400"
  by (auto simp: do_POST_check_ticket_def split: sum.splits if_splits)


lemma validate_Continue_iff:
  "do_POST_validate env rq st = (Continue (data, ticket), st1) \<longleftrightarrow>
     do_POST_read_json env rq st = (Continue data, st1) \<and>
     do_POST_check_ticket data st1 = (Continue ticket, st1)"
  by (auto simp: do_POST_validate_def split: prod.splits flow.splits dest: check_ticket_quiet)

lemma validate_invocations:
  "do_POST_validate env rq st = (f, st1) \<Longrightarrow> invocations st1 = invocations st"
  by (auto simp: do_POST_validate_def split: prod.splits flow.splits
      dest!: check_ticket_invocations read_json_invocations)

lemma validate_quiet:
  "do_POST_validate env rq st = (f, st1) \<Longrightarrow> f \<noteq> Responded \<Longrightarrow> wfile st1 = wfile st"
  by (auto simp: do_POST_validate_def split: prod.splits flow.splits
      dest!: check_ticket_quiet read_json_quiet)

lemma validate_Responded:
  "do_POST_validate env rq st = (Responded, st1) \<Longrightarrow>
     \<exists>r. wfile st1 = wfile st @ [r] \<and> (status_code r = 400 \<or> status_code r = 413)"
  by (auto simp: do_POST_validate_def split: prod.splits flow.splits
      dest!: check_ticket_Responded read_json_Responded read_json_quiet)



lemma limit_message:
  "ustr ''Ticket exceeds maximum length of '' @ py_str_nat MAX_TICKET_LENGTH @ ustr '' characters''
   = ustr ''Ticket exceeds maximum length of 5000 characters''"
  by (simp add: MAX_TICKET_LENGTH_def py_str_nat.simps ustr_def)

lemma invoke_invocations:
  "do_POST_invoke env client data ticket st = (x, st2) \<Longrightarrow>
     invocations st2 = invocations st @ [build_invoke_request (build_prompt ticket)]"
  by (auto simp: do_POST_invoke_def Let_def split: sum.splits)

lemma invoke_raised:
  "do_POST_invoke env client data ticket st = (Some e, st2) \<Longrightarrow> wfile st2 = wfile st"
  by (auto simp: do_POST_invoke_def Let_def split: sum.splits)

lemma invoke_returned:
  "do_POST_invoke env client data ticket st = (None, st2) \<Longrightarrow>
     \<exists>tid analysis. py_get data (ustr ''ticket_id'') (JString (ustr ''N/A'')) = Inr tid \<and>
       wfile st2 = wfile st @
         [json_response 200 (JObject [(ustr ''ticket_id'', tid), (ustr ''analysis'', analysis)])]"
  by (auto simp: do_POST_invoke_def Let_def and_then_def split: sum.splits)

lemma on_ClientError_invocations:
  "do_POST_on_ClientError r st = (x, st2) \<Longrightarrow> invocations st2 = invocations st"
  by (auto simp: do_POST_on_ClientError_def split: sum.splits if_splits)

lemma on_ClientError_raised:
  "do_POST_on_ClientError r st = (Some e, st2) \<Longrightarrow> st2 = st"
  by (auto simp: do_POST_on_ClientError_def split: sum.splits if_splits)

lemma on_ClientError_returned:
  "do_POST_on_ClientError r st = (None, st2) \<Longrightarrow>
     \<exists>r. wfile st2 = wfile st @ [r] \<and> status_code r \<in> {429, 403, 502}"
  by (auto simp: do_POST_on_ClientError_def split: sum.splits if_splits)

lemma call_bedrock_invocations:
  "do_POST_call_bedrock env client data ticket st = (x, st2) \<Longrightarrow>
     invocations st2 = invocations st @ [build_invoke_request (build_prompt ticket)]"
  by (auto simp: do_POST_call_bedrock_def split: prod.splits option.splits exn.splits
      dest!: invoke_invocations on_ClientError_invocations)

lemma call_bedrock_raised:
  "do_POST_call_bedrock env client data ticket st = (Some e, st2) \<Longrightarrow> wfile st2 = wfile st"
  by (auto simp: do_POST_call_bedrock_def split: prod.splits option.splits exn.splits
      dest!: invoke_raised on_ClientError_raised)

lemma call_bedrock_returned:
  "do_POST_call_bedrock env client data ticket st = (None, st2) \<Longrightarrow>
     (\<exists>tid analysis. py_get data (ustr ''ticket_id'') (JString (ustr ''N/A'')) = Inr tid \<and>
       wfile st2 = wfile st @
         [json_response 200 (JObject [(ustr ''ticket_id'', tid), (ustr ''analysis'', analysis)])])
     \<or> (\<exists>r. wfile st2 = wfile st @ [r] \<and> status_code r \<in> {429, 403, 502})"
  by (auto simp: do_POST_call_bedrock_def split: prod.splits option.splits exn.splits
      dest!: invoke_returned invoke_raised on_ClientError_returned)

lemma do_POST_one_response:
  "\<exists>r. wfile (do_POST env rq st) = wfile st @ [r]"
proof (cases "do_POST_validate env rq st")
  case (Pair f st1)
  show ?thesis
  proof (cases f)
    case Responded
    with Pair show ?thesis
      by (auto simp: do_POST_def do_POST_try_def dest: validate_Responded)
  next
    case (Raised e)
    with Pair validate_quiet [of env rq st f st1] show ?thesis
      by (auto simp: do_POST_def do_POST_try_def)
  next
    case (Continue dt)
    obtain data ticket where dt: "dt = (data, ticket)" by (cases dt)
    from Pair Continue validate_quiet [of env rq st f st1] have w: "wfile st1 = wfile st" by simp
    show ?thesis
    proof (cases "bedrock_client env")
      case None
      with Pair Continue dt w show ?thesis
        by (simp add: do_POST_def do_POST_try_def do_POST_analyze_def)
    next
      case (Some client)
      obtain x st2 where c: "do_POST_call_bedrock env client data ticket st1 = (x, st2)"
        by (cases "do_POST_call_bedrock env client data ticket st1")
      show ?thesis
      proof (cases x)
        case None
        with c call_bedrock_returned [of env client data ticket st1 st2] Pair Continue dt w Some
        show ?thesis
          by (auto simp add: do_POST_def do_POST_try_def do_POST_analyze_def)
      next
        case (Some e)
        with c call_bedrock_raised [of env client data ticket st1 e st2] Pair Continue dt w \<open>bedrock_client env = Some client\<close>
        show ?thesis
          by (auto simp add: do_POST_def do_POST_try_def do_POST_analyze_def)
      qed
    qed
  qed
qed


lemmas sample_defs =
  sample_env_def post_def get_def incoming_def int_table_def json_table_def ascii_decode_def
  client_json_def client_text_def client_error_def client_botocore_def sample_data_def
  reply_of_def ustr_def sublist_code


subsection \<open>The paths through \<open>do_POST\<close>\<close>

lemma long_request:
  "sublist (ustr ''application/json'') (content_type_of (post ''application/json'' ''5015''))"
  "content_length_of (long_env c) (post ''application/json'' ''5015'') = Inr 5015"
  "rfile_read (incoming long_body) 5015 = (Inr long_body, incoming [])"
  "and_then (decode_utf8 (long_env c) long_body) (json_loads (long_env c)) = Inr long_data"
  "and_then (py_get long_data (ustr ''ticket'') (JString [])) py_strip_method = Inr long_ticket"
  "length long_ticket = 5001"
proof -
  show "sublist (ustr ''application/json'') (content_type_of (post ''application/json'' ''5015''))"
    by (simp add: content_type_of_def post_def ustr_def sublist_code)
  show "content_length_of (long_env c) (post ''application/json'' ''5015'') = Inr 5015"
    by (simp add: content_length_of_def post_def long_env_def)
  have "length long_body = 5015"
    by (simp add: long_body_def)
  then show "rfile_read (incoming long_body) 5015 = (Inr long_body, incoming [])"
    by (simp add: rfile_read_def incoming_def)
  show "and_then (decode_utf8 (long_env c) long_body) (json_loads (long_env c)) = Inr long_data"
    by (simp add: long_env_def and_then_def)
  have "\<not> py_isspace 97"
    by (simp add: py_isspace_def)
  then have "py_strip long_ticket = long_ticket"
    by (simp add: py_strip_def long_ticket_def)
  then show "and_then (py_get long_data (ustr ''ticket'') (JString [])) py_strip_method = Inr long_ticket"
    by (simp add: long_data_def and_then_def)
  show "length long_ticket = 5001"
    by (simp add: long_ticket_def)
qed



lemma analyze_invocations:
  "do_POST_analyze env data ticket st = (x, st2) \<Longrightarrow>
     invocations st2 = invocations st
     \<or> invocations st2 = invocations st @ [build_invoke_request (build_prompt ticket)]"
  by (auto simp: do_POST_analyze_def split: option.splits dest: call_bedrock_invocations)

lemma do_POST_invocations:
  "invocations (do_POST env rq st) = invocations st
   \<or> (\<exists>data t st1. do_POST_validate env rq st = (Continue (data, t), st1)
         \<and> invocations (do_POST env rq st) = invocations st @ [build_invoke_request (build_prompt t)])"
proof (cases "do_POST_validate env rq st")
  case (Pair f st1)
  note inv = validate_invocations [OF Pair]
  show ?thesis
  proof (cases f)
    case Responded
    with Pair inv show ?thesis
      by (simp add: do_POST_def do_POST_try_def)
  next
    case (Raised e)
    with Pair inv show ?thesis
      by (simp add: do_POST_def do_POST_try_def)
  next
    case (Continue dt)
    obtain data t where dt: "dt = (data, t)"
      by (cases dt)
    obtain x st2 where a: "do_POST_analyze env data t st1 = (x, st2)"
      by (cases "do_POST_analyze env data t st1")
    have "invocations (do_POST env rq st) = invocations st2"
      using Pair Continue dt a by (cases x) (simp_all add: do_POST_def do_POST_try_def)
    with analyze_invocations [OF a] inv Pair Continue dt show ?thesis
      by auto
  qed
qed
subsection \<open>The claims\<close>













text \<open>
  C6. A request whose trimmed ticket is longer than \<open>MAX_TICKET_LENGTH\<close> is
  answered 400 at the length check, and the list of calls to the inference client
  is what it was before the request. More generally, for every request at all:
  either no call is made, or exactly one is, and then the request was validated
  and the prompt of the call is built from its trimmed ticket \<open>t\<close>, which is
  non-empty and at most \<open>MAX_TICKET_LENGTH\<close> long.
\<close>

theorem oversized_ticket_never_invoked:
  "(do_POST_read_json env rq st = (Continue data, st1)
      \<and> and_then (py_get data (ustr ''ticket'') (JString [])) py_strip_method = Inr ticket
      \<and> length ticket > MAX_TICKET_LENGTH \<longrightarrow>
    invocations (do_POST env rq st) = invocations st
    \<and> wfile (do_POST env rq st) = wfile st @
         [json_response 400 (error_body (ustr ''Ticket exceeds maximum length of 5000 characters''))])
   \<and> (invocations (do_POST env rq st) = invocations st
       \<or> (\<exists>data t st1. do_POST_validate env rq st = (Continue (data, t), st1)
             \<and> t \<noteq> [] \<and> length t \<le> MAX_TICKET_LENGTH
             \<and> invocations (do_POST env rq st) = invocations st @ [build_invoke_request (build_prompt t)]))"
proof (intro conjI impI)
  assume a: "do_POST_read_json env rq st = (Continue data, st1)
      \<and> and_then (py_get data (ustr ''ticket'') (JString [])) py_strip_method = Inr ticket
      \<and> length ticket > MAX_TICKET_LENGTH"
  then have "ticket \<noteq> []"
    by auto
  with a have r: "do_POST env rq st = send_json_response st1 400
      (error_body (ustr ''Ticket exceeds maximum length of 5000 characters''))"
    by (simp add: do_POST_def do_POST_try_def do_POST_validate_def do_POST_check_ticket_def
        limit_message)
  from a have "wfile st1 = wfile st" "invocations st1 = invocations st"
    by (auto dest: read_json_quiet read_json_invocations)
  with r show "invocations (do_POST env rq st) = invocations st"
    and "wfile (do_POST env rq st) = wfile st @
         [json_response 400 (error_body (ustr ''Ticket exceeds maximum length of 5000 characters''))]"
    by simp_all
next
  from do_POST_invocations [of env rq st]
  show "invocations (do_POST env rq st) = invocations st
       \<or> (\<exists>data t st1. do_POST_validate env rq st = (Continue (data, t), st1)
             \<and> t \<noteq> [] \<and> length t \<le> MAX_TICKET_LENGTH
             \<and> invocations (do_POST env rq st) = invocations st @ [build_invoke_request (build_prompt t)])"
    by (auto simp: validate_Continue_iff check_ticket_Continue_iff)
qed

theorem oversized_ticket_never_invoked_witness:
  "do_POST_read_json (long_env (Some client_json)) (post ''application/json'' ''5015'') (incoming long_body)
     = (Continue long_data, incoming [])
   \<and> and_then (py_get long_data (ustr ''ticket'') (JString [])) py_strip_method = Inr long_ticket
   \<and> length long_ticket > MAX_TICKET_LENGTH
   \<and> invocations (do_POST (long_env (Some client_json)) (post ''application/json'' ''5015'') (incoming long_body)) = []
   \<and> wfile (do_POST (long_env (Some client_json)) (post ''application/json'' ''5015'') (incoming long_body))
     = [json_response 400 (error_body (ustr ''Ticket exceeds maximum length of 5000 characters''))]"
proof -
  have p: "do_POST_read_json (long_env (Some client_json)) (post ''application/json'' ''5015'') (incoming long_body)
     = (Continue long_data, incoming [])"
    using long_request(1-4)
    by (simp add: do_POST_read_json_def)
  have l: "length long_ticket > MAX_TICKET_LENGTH"
    by (simp add: long_request(6) MAX_TICKET_LENGTH_def)
  show ?thesis
    using oversized_ticket_never_invoked [of "long_env (Some client_json)" "post ''application/json'' ''5015''"
        "incoming long_body" long_data "incoming []" long_ticket] p l long_request(5)
    by (simp add: incoming_def)
qed





text \<open>
  C9. \<open>GET /health\<close> is answered with status 200 and \<open>status\<close> equal to
  \<open>"healthy"\<close>, for every environment, so also when \<open>bedrock_client\<close> is \<open>None\<close>;
  a GET of any other path is answered with 404 and \<open>{"error": "Not found"}\<close>.
  Neither calls the inference client.
\<close>

theorem health_endpoint:
  "(path rq = ustr ''/health'' \<longrightarrow>
      (\<exists>r. wfile (do_GET env rq st) = wfile st @ [r] \<and> status_code r = 200
           \<and> py_getitem_str (resp_data r) (ustr ''status'') = Inr (JString (ustr ''healthy''))))
   \<and> (path rq \<noteq> ustr ''/health'' \<longrightarrow>
      wfile (do_GET env rq st) = wfile st @ [json_response 404 (JObject [(ustr ''error'', JString (ustr ''Not found''))])])
   \<and> invocations (do_GET env rq st) = invocations st"
  by (simp add: do_GET_def error_body_def)

theorem health_endpoint_witness:
  "path (get ''/health'') = ustr ''/health''
   \<and> bedrock_client (sample_env None) = None
   \<and> map status_code (wfile (do_GET (sample_env None) (get ''/health'') (incoming []))) = [200]
   \<and> path (get ''/health?probe=1'') \<noteq> ustr ''/health''
   \<and> wfile (do_GET (sample_env None) (get ''/health?probe=1'') (incoming []))
       = [json_response 404 (JObject [(ustr ''error'', JString (ustr ''Not found''))])]"
  using health_endpoint [of "get ''/health''" "sample_env None" "incoming []"]
    health_endpoint [of "get ''/health?probe=1''" "sample_env None" "incoming []"]
  by (auto simp add: sample_defs)



end
